theory Spec2Isabelle
  imports Main
begin

section \<open>The OBD-II reader of \<^verbatim>\<open>src/lib/obd.ts\<close>\<close>

text \<open>
  The file holds the reader twice: a prototype-style version (lines 1 to 362) and the class
  version (lines 363 to 735). The class version is the one embedded here; the bodies of the
  two agree except that the older one keeps \<^verbatim>\<open>activePollers\<close> and
  \<^verbatim>\<open>pollerInterval\<close> at module level.

  Several locals that the code assigns after their declaration are declared
  \<^verbatim>\<open>const\<close> (\<^verbatim>\<open>byteNumber\<close>, \<^verbatim>\<open>valueArray\<close>, the loop counter
  \<^verbatim>\<open>i\<close> of the mode 41 loop). They are read as ordinary mutable variables, which is
  what the loops need in order to run at all.

  Everything the code does beyond returning a value is explicit: the module-level
  \<^verbatim>\<open>queue\<close> is a value passed in and returned, \<^verbatim>\<open>this\<close> is a record, the
  events given to \<^verbatim>\<open>emit\<close> are returned as a list in emission order, and the calls of
  \<^verbatim>\<open>btSerial.write\<close> are returned as a list of (port, text) pairs.
\<close>

subsection \<open>JavaScript strings and arrays\<close>

text \<open>
  Texts on the wire are ASCII, so a JavaScript string is a \<^typ>\<open>string\<close>. The chunk handed to
  the data handler is taken after \<^verbatim>\<open>data.toString('utf8')\<close>.
\<close>

definition prompt :: char where
  "prompt = CHR ''>''"

definition CR :: char where
  "CR = CHR 0x0D"

text \<open>
  \<^verbatim>\<open>s.split(c)\<close> for a separator of one character: the pieces between the occurrences of
  \<open>c\<close>, of which there is always at least one (\<^verbatim>\<open>''.split('>')\<close> is \<^verbatim>\<open>['']\<close>).
\<close>

fun split :: "char \<Rightarrow> string \<Rightarrow> string list" where
  "split c [] = [[]]"
| "split c (x # xs) =
     (if x = c then [] # split c xs
      else (case split c xs of
              [] \<Rightarrow> [[x]]
            | p # ps \<Rightarrow> (x # p) # ps))"

text \<open>An array read \<^verbatim>\<open>a[i]\<close>: \<^verbatim>\<open>undefined\<close>, here \<open>None\<close>, out of range.\<close>

definition at :: "'a list \<Rightarrow> nat \<Rightarrow> 'a option" where
  "at xs i = (if i < length xs then Some (xs ! i) else None)"

text \<open>
  The text of a number in a string concatenation, for the integers that print positionally
  (magnitude below \<open>10\<^sup>2\<^sup>1\<close>).
\<close>

function showNat :: "nat \<Rightarrow> string" where
  "showNat n =
     (if n < 10 then [''0123456789'' ! n]
      else showNat (n div 10) @ [''0123456789'' ! (n mod 10)])"
  by pat_completeness auto
termination
  by (relation "measure (\<lambda>n. n)") auto

declare showNat.simps [simp del]

definition numberToString :: "int \<Rightarrow> string" where
  "numberToString r = (if r < 0 then CHR ''-'' # showNat (nat (- r)) else showNat (nat r))"

text \<open>
  \<^verbatim>\<open>a.indexOf(v)\<close> (strict equality, \<open>-1\<close> when absent) and \<^verbatim>\<open>a.splice(index, 1)\<close>,
  where a negative start counts from the end of the array.
\<close>

fun indexOf :: "'a list \<Rightarrow> 'a \<Rightarrow> int" where
  "indexOf [] v = - 1"
| "indexOf (x # xs) v =
     (if x = v then 0 else (let k = indexOf xs v in if k < 0 then - 1 else k + 1))"

definition splice1 :: "int \<Rightarrow> 'a list \<Rightarrow> 'a list" where
  "splice1 index xs =
     (let len = int (length xs);
          start = (if index < 0 then max (len + index) 0 else min index len)
      in take (nat start) xs @ drop (nat start + 1) xs)"

subsection \<open>The PID table\<close>

text \<open>
  \<^verbatim>\<open>PIDS\<close> is imported from \<^verbatim>\<open>./obdInfo\<close>, which is not part of the sources at hand,
  so every function that consults it takes the table as its first argument. An entry has a
  name, a mode, possibly a pid, a byte width and a conversion, which receives the byte tokens
  it is called with (\<open>None\<close> for an argument that is \<^verbatim>\<open>undefined\<close>) and is taken to return
  a value without throwing.
\<close>

record 'v pidEntry =
  mode :: string
  pid :: "string option"
  bytes :: nat
  name :: string
  convertToUseful :: "string option list \<Rightarrow> 'v"

text \<open>
  A reply object. A property that was never assigned is \<open>None\<close>; so is one assigned
  \<^verbatim>\<open>undefined\<close>. The value is the frame's own text on the status path and the result of
  the entry's conversion otherwise.
\<close>

datatype 'v replyValue = Status string | Converted 'v

record 'v reply =
  reply_value :: "'v replyValue option"
  reply_name :: "string option"
  reply_mode :: "string option"
  reply_pid :: "string option"

definition emptyReply :: "'v reply" where
  "emptyReply = \<lparr>reply_value = None, reply_name = None, reply_mode = None, reply_pid = None\<rparr>"

fun getPIDByName :: "'v pidEntry list \<Rightarrow> string \<Rightarrow> string option" where
  "getPIDByName [] n = None"
| "getPIDByName (e # es) n =
     (if name e = n then
        (case pid e of
           Some p \<Rightarrow> Some (mode e @ p)
         | None \<Rightarrow> Some (mode e))
      else getPIDByName es n)"

subsection \<open>parseOBDCommand\<close>

definition statusTokens :: "string list" where
  "statusTokens = [''NO DATA'', ''OK'', ''?'', ''UNABLE TO CONNECT'', ''SEARCHING...'']"

text \<open>The loop that cuts the text into pieces of two characters with \<^verbatim>\<open>substr\<close>.\<close>

fun byteTokens :: "string \<Rightarrow> string list" where
  "byteTokens [] = []"
| "byteTokens [a] = [[a]]"
| "byteTokens (a # b # rest) = [a, b] # byteTokens rest"

definition stripSpaces :: "string \<Rightarrow> string" where
  "stripSpaces s = filter (\<lambda>c. c \<noteq> CHR '' '') s"

text \<open>
  The loop of the mode 41 branch: the first entry whose pid equals \<^verbatim>\<open>reply.pid\<close> names
  the reply, the \<^verbatim>\<open>switch\<close> on its width routes the tokens, and the loop ends there.
  The comparison is \<^verbatim>\<open>==\<close>, under which two strings are equal when they are the same
  and \<^verbatim>\<open>undefined\<close> equals \<^verbatim>\<open>undefined\<close> only.
\<close>

fun pidLoop41 :: "'v pidEntry list \<Rightarrow> string list \<Rightarrow> 'v reply \<Rightarrow> 'v reply" where
  "pidLoop41 [] valueArray r = r"
| "pidLoop41 (e # es) valueArray r =
     (if pid e = reply_pid r then
        (let numberOfBytes = bytes e;
             r1 = r\<lparr>reply_name := Some (name e)\<rparr>
         in if numberOfBytes = 1 then
              r1\<lparr>reply_value := Some (Converted (convertToUseful e [at valueArray 2]))\<rparr>
            else if numberOfBytes = 2 then
              r1\<lparr>reply_value := Some (Converted (convertToUseful e
                    [at valueArray 2, at valueArray 3]))\<rparr>
            else if numberOfBytes = 4 then
              r1\<lparr>reply_value := Some (Converted (convertToUseful e
                    [at valueArray 2, at valueArray 3, at valueArray 4, at valueArray 5]))\<rparr>
            else if numberOfBytes = 8 then
              r1\<lparr>reply_value := Some (Converted (convertToUseful e
                    [at valueArray 2, at valueArray 3, at valueArray 4, at valueArray 5,
                     at valueArray 6, at valueArray 7, at valueArray 8, at valueArray 9]))\<rparr>
            else r1)
      else pidLoop41 es valueArray r)"

text \<open>The loop of the mode 43 branch has no \<^verbatim>\<open>break\<close>: the last entry of mode 03 wins.\<close>

fun pidLoop43 :: "'v pidEntry list \<Rightarrow> string list \<Rightarrow> 'v reply \<Rightarrow> 'v reply" where
  "pidLoop43 [] valueArray r = r"
| "pidLoop43 (e # es) valueArray r =
     pidLoop43 es valueArray
       (if mode e = ''03'' then
          r\<lparr>reply_name := Some (name e),
            reply_value := Some (Converted (convertToUseful e
              [at valueArray 1, at valueArray 2, at valueArray 3,
               at valueArray 4, at valueArray 5, at valueArray 6]))\<rparr>
        else r)"

text \<open>The array of byte tokens the function builds from a text that is no status token.\<close>

definition valueArrayOf :: "string \<Rightarrow> string list" where
  "valueArrayOf hexString = byteTokens (stripSpaces hexString)"

definition parseOBDCommand :: "'v pidEntry list \<Rightarrow> string \<Rightarrow> 'v reply" where
  "parseOBDCommand PIDS hexString =
     (if hexString \<in> set statusTokens then
        emptyReply\<lparr>reply_value := Some (Status hexString)\<rparr>
      else
        (let valueArray = valueArrayOf hexString in
         if at valueArray 0 = Some ''41'' then
           pidLoop41 PIDS valueArray
             (emptyReply\<lparr>reply_mode := at valueArray 0, reply_pid := at valueArray 1\<rparr>)
         else if at valueArray 0 = Some ''43'' then
           pidLoop43 PIDS valueArray (emptyReply\<lparr>reply_mode := at valueArray 0\<rparr>)
         else emptyReply))"

subsection \<open>The reader and what it emits\<close>

text \<open>
  The state of an \<^verbatim>\<open>OBDReader\<close>. \<^verbatim>\<open>btSerial\<close> is the transport object, named by
  a port number, and is \<^verbatim>\<open>undefined\<close> until \<^verbatim>\<open>connect\<close> assigns it. A timer field
  holds the period of the interval timer whose handle it stores, and \<open>None\<close> when no timer
  was started or \<^verbatim>\<open>clearInterval\<close> was called on the handle.

  \<open>errorListeners\<close> is the part of the state inherited from \<^verbatim>\<open>EventEmitter\<close> that
  changes what the code does: the number of listeners registered for \<^verbatim>\<open>error\<close>. With
  none, \<^verbatim>\<open>emit('error', ..)\<close> throws; a reader is constructed with none. Listeners are
  taken to return without throwing and without calling the reader, and the listeners of the
  other events, whose \<^verbatim>\<open>emit\<close> never throws, are not recorded.

  The last two components are no fields of the class. \<^verbatim>\<open>connect\<close> and
  \<^verbatim>\<open>startPolling\<close> store the handle of the new timer over the old one without clearing
  the old timer, which the runtime keeps firing and nothing can cancel any more:
  \<open>strayDrainTimers\<close> counts such drain timers of this reader, \<open>strayPollerTimers\<close> lists
  the periods of such poller timers.

  An emitted event is an output. The data handler emits \<^verbatim>\<open>dataReceived\<close> only, so its
  output is the list of the replies it emitted; every other function emits events that carry
  a text or nothing.
\<close>

record OBDReader =
  connected :: bool
  receivedData :: string
  protocol :: string
  btSerial :: "nat option"
  intervalWriter :: "nat option"
  activePollers :: "string option list"
  pollerInterval :: "nat option"
  errorListeners :: nat
  strayDrainTimers :: nat
  strayPollerTimers :: "nat list"

datatype event = Connected | Error string | Debug string

text \<open>A reader as the class constructs it, by its field initialisers.\<close>

definition newReader :: OBDReader where
  "newReader =
     \<lparr>connected = False, receivedData = [], protocol = ''0'', btSerial = None,
      intervalWriter = None, activePollers = [], pollerInterval = None,
      errorListeners = 0, strayDrainTimers = 0, strayPollerTimers = []\<rparr>"

text \<open>
  \<^verbatim>\<open>reader.on('error', listener)\<close>, and whether an exception left a function that
  emitted \<open>out\<close>: every function below stops at an \<^verbatim>\<open>emit\<close> that throws, so that
  the event of that \<^verbatim>\<open>emit\<close> is the last of its output. What the runtime does with an
  exception that leaves a callback is outside the model.
\<close>

definition onError :: "OBDReader \<Rightarrow> OBDReader" where
  "onError self = self\<lparr>errorListeners := Suc (errorListeners self)\<rparr>"

definition isError :: "event \<Rightarrow> bool" where
  "isError ev = (case ev of Error m \<Rightarrow> True | Connected \<Rightarrow> False | Debug m \<Rightarrow> False)"

definition escapes :: "OBDReader \<Rightarrow> event list \<Rightarrow> bool" where
  "escapes self out = (errorListeners self = 0 \<and> list_ex isError out)"

definition writeDelay :: nat where
  "writeDelay = 50"

subsection \<open>The data handler\<close>

fun messageLoop ::
  "'v pidEntry list \<Rightarrow> string list \<Rightarrow> OBDReader \<times> 'v reply list \<Rightarrow> OBDReader \<times> 'v reply list"
where
  "messageLoop PIDS [] st = st"
| "messageLoop PIDS (messageString # rest) (self, out) =
     (if messageString = [] then messageLoop PIDS rest (self, out)
      else messageLoop PIDS rest
             (self\<lparr>receivedData := []\<rparr>,
              out @ [parseOBDCommand PIDS messageString]))"

fun commandLoop ::
  "'v pidEntry list \<Rightarrow> string list \<Rightarrow> OBDReader \<times> 'v reply list \<Rightarrow> OBDReader \<times> 'v reply list"
where
  "commandLoop PIDS [] st = st"
| "commandLoop PIDS (forString # rest) st =
     (if forString = [] then commandLoop PIDS rest st
      else commandLoop PIDS rest (messageLoop PIDS (split CR forString) st))"

definition dataHandler ::
  "'v pidEntry list \<Rightarrow> OBDReader \<Rightarrow> string \<Rightarrow> OBDReader \<times> 'v reply list"
where
  "dataHandler PIDS self data =
     (let currentString = receivedData self @ data;
          arrayOfCommands = split prompt currentString
      in if length arrayOfCommands < 2 then
           (self\<lparr>receivedData := hd arrayOfCommands\<rparr>, [])
         else commandLoop PIDS arrayOfCommands (self, []))"

text \<open>The handler run on the chunks of a stream, one after the other.\<close>

fun feed ::
  "'v pidEntry list \<Rightarrow> OBDReader \<Rightarrow> string list \<Rightarrow> OBDReader \<times> 'v reply list"
where
  "feed PIDS self [] = (self, [])"
| "feed PIDS self (data # rest) =
     (let (self1, out1) = dataHandler PIDS self data;
          (self2, out2) = feed PIDS self1 rest
      in (self2, out1 @ out2))"

subsection \<open>The command queue\<close>

text \<open>
  \<^verbatim>\<open>write\<close> changes nothing of the reader; it returns the queue and what it emitted.
  An absent second argument is \<open>None\<close>. An \<^verbatim>\<open>emit\<close> is the last thing it does, so
  when that throws the result is the same and the exception leaves \<^verbatim>\<open>write\<close>:
  \<open>escapes self out\<close> tells so.
\<close>

definition "write" ::
  "string list \<Rightarrow> OBDReader \<Rightarrow> string \<Rightarrow> int option \<Rightarrow> string list \<times> event list"
where
  "write queue self message replies0 =
     (let replies = (case replies0 of None \<Rightarrow> 0 | Some r \<Rightarrow> r) in
      if connected self then
        if length queue < 256 then
          if replies \<noteq> 0 then (queue @ [message @ numberToString replies @ [CR]], [])
          else (queue @ [message @ [CR]], [])
        else (queue, [Error ''Queue-overflow!''])
      else (queue, [Error ''Bluetooth device is not connected.'']))"

text \<open>
  \<^verbatim>\<open>write\<close> called with a message that is \<^verbatim>\<open>undefined\<close>, as \<^verbatim>\<open>writePollers\<close>
  and \<^verbatim>\<open>requestValueByName\<close> do for a name the table does not have. With a reply count
  \<^verbatim>\<open>message + replies\<close> is the sum of \<^verbatim>\<open>undefined\<close> and a number, which is
  \<^verbatim>\<open>NaN\<close>; without one \<^verbatim>\<open>message + '\r'\<close> is a concatenation.
\<close>

definition writeUndefined ::
  "string list \<Rightarrow> OBDReader \<Rightarrow> int option \<Rightarrow> string list \<times> event list"
where
  "writeUndefined queue self replies0 =
     (let replies = (case replies0 of None \<Rightarrow> 0 | Some r \<Rightarrow> r) in
      if connected self then
        if length queue < 256 then
          if replies \<noteq> 0 then (queue @ [''NaN'' @ [CR]], [])
          else (queue @ [''undefined'' @ [CR]], [])
        else (queue, [Error ''Queue-overflow!''])
      else (queue, [Error ''Bluetooth device is not connected.'']))"

definition removeAllPollers :: "OBDReader \<Rightarrow> OBDReader" where
  "removeAllPollers self = self\<lparr>activePollers := []\<rparr>"

text \<open>
  What the transport does with one call of \<^verbatim>\<open>btSerial.write\<close>: it accepts the bytes,
  it reports an error to the callback, or the call throws.
\<close>

datatype writeOutcome = WriteOk | WriteError string | WriteThrows string

text \<open>
  The body of the interval callback that \<^verbatim>\<open>connect\<close> installs. The result is the
  queue, the reader, the events and the calls of \<^verbatim>\<open>btSerial.write\<close> made.
  \<^verbatim>\<open>queue.shift()\<close> is an argument of the call, so the head has left the queue whatever
  the call does; when \<^verbatim>\<open>this.btSerial\<close> is \<^verbatim>\<open>undefined\<close> the member access throws
  before the argument is evaluated, and the text of that exception is shortened to
  \<^verbatim>\<open>TypeError\<close>. An error the transport hands to the callback is listed with the
  period that made the call.

  The \<^verbatim>\<open>catch\<close> block emits two errors, clears the timer whose handle is in
  \<^verbatim>\<open>intervalWriter\<close> and empties the poller set. On a reader without a listener for
  \<^verbatim>\<open>error\<close> its first \<^verbatim>\<open>emit\<close> throws, the exception leaves the callback and the
  rest of the block does not run.
\<close>

definition catchBlock :: "OBDReader \<Rightarrow> string \<Rightarrow> OBDReader \<times> event list" where
  "catchBlock self err =
     (if errorListeners self = 0 then (self, [Error (''Error while writing: '' @ err)])
      else (removeAllPollers (self\<lparr>intervalWriter := None\<rparr>),
            [Error (''Error while writing: '' @ err),
             Error ''OBD-II Listeners deactivated, connection is probably lost.'']))"

definition drainTick ::
  "string list \<Rightarrow> OBDReader \<Rightarrow> writeOutcome \<Rightarrow>
     string list \<times> OBDReader \<times> event list \<times> (nat \<times> string) list"
where
  "drainTick queue self outcome =
     (if length queue > 0 \<and> connected self then
        (case btSerial self of
           None \<Rightarrow>
             (let (self1, out1) = catchBlock self ''TypeError'' in (queue, self1, out1, []))
         | Some port \<Rightarrow>
             (case outcome of
                WriteOk \<Rightarrow> (tl queue, self, [], [(port, hd queue)])
              | WriteError err \<Rightarrow> (tl queue, self, [Error err], [(port, hd queue)])
              | WriteThrows err \<Rightarrow>
                  (let (self1, out1) = catchBlock self err
                   in (tl queue, self1, out1, [(port, hd queue)]))))
      else (queue, self, [], []))"

text \<open>
  One period of the drain timer whose handle the reader holds: the callback runs only while
  the timer is scheduled.
\<close>

definition intervalWriterFires ::
  "string list \<Rightarrow> OBDReader \<Rightarrow> writeOutcome \<Rightarrow>
     string list \<times> OBDReader \<times> event list \<times> (nat \<times> string) list"
where
  "intervalWriterFires queue self outcome =
     (case intervalWriter self of
        None \<Rightarrow> (queue, self, [], [])
      | Some period \<Rightarrow> drainTick queue self outcome)"

text \<open>
  One period of a drain timer that an earlier \<^verbatim>\<open>connect\<close> left behind. It runs the same
  callback on the same reader; the timer its \<^verbatim>\<open>catch\<close> block clears is the one in the
  field, not itself.
\<close>

definition strayDrainFires ::
  "string list \<Rightarrow> OBDReader \<Rightarrow> writeOutcome \<Rightarrow>
     string list \<times> OBDReader \<times> event list \<times> (nat \<times> string) list"
where
  "strayDrainFires queue self outcome =
     (if strayDrainTimers self = 0 then (queue, self, [], [])
      else drainTick queue self outcome)"

text \<open>
  Several periods of the timer the reader holds in a row, one transport outcome for each.
\<close>

fun drainTicks ::
  "string list \<Rightarrow> OBDReader \<Rightarrow> writeOutcome list \<Rightarrow>
     string list \<times> OBDReader \<times> event list \<times> (nat \<times> string) list"
where
  "drainTicks queue self [] = (queue, self, [], [])"
| "drainTicks queue self (outcome # rest) =
     (let (queue1, self1, out1, calls1) = intervalWriterFires queue self outcome;
          (queue2, self2, out2, calls2) = drainTicks queue1 self1 rest
      in (queue2, self2, out1 @ out2, calls1 @ calls2))"

text \<open>
  \<^verbatim>\<open>connect\<close>, as far as the fields go: the call \<^verbatim>\<open>this.btSerial.connect\<close> is made
  on the field before the new transport is stored in it, so it throws (\<open>None\<close>) on a reader
  whose field is still \<^verbatim>\<open>undefined\<close>; otherwise the new transport is stored and a drain
  timer started, whose handle replaces the one in \<^verbatim>\<open>intervalWriter\<close>: a timer still
  scheduled under the old handle becomes a stray one.
\<close>

definition connect :: "OBDReader \<Rightarrow> nat \<Rightarrow> OBDReader option" where
  "connect self port =
     (case btSerial self of
        None \<Rightarrow> None
      | Some old \<Rightarrow>
          Some (self\<lparr>btSerial := Some port,
                 strayDrainTimers :=
                   (case intervalWriter self of
                      None \<Rightarrow> strayDrainTimers self
                    | Some period \<Rightarrow> Suc (strayDrainTimers self)),
                 intervalWriter := Some writeDelay\<rparr>))"

text \<open>
  \<^verbatim>\<open>disconnect\<close> returns the queue, the reader and whether it threw:
  \<^verbatim>\<open>this.btSerial.close()\<close> throws on an \<^verbatim>\<open>undefined\<close> transport, after the timer
  in the field and the queue have been cleared and before \<^verbatim>\<open>connected\<close> is reset.
\<close>

definition disconnect :: "string list \<Rightarrow> OBDReader \<Rightarrow> string list \<times> OBDReader \<times> bool" where
  "disconnect queue self =
     (let self1 = self\<lparr>intervalWriter := None\<rparr>;
          queue1 = []
      in case btSerial self1 of
           None \<Rightarrow> (queue1, self1, True)
         | Some port \<Rightarrow> (queue1, self1\<lparr>connected := False\<rparr>, False))"

subsection \<open>Pollers\<close>

definition addPoller :: "'v pidEntry list \<Rightarrow> OBDReader \<Rightarrow> string \<Rightarrow> OBDReader" where
  "addPoller PIDS self n =
     (let stringToSend = getPIDByName PIDS n
      in self\<lparr>activePollers := activePollers self @ [stringToSend]\<rparr>)"

definition removePoller :: "'v pidEntry list \<Rightarrow> OBDReader \<Rightarrow> string \<Rightarrow> OBDReader" where
  "removePoller PIDS self n =
     (let stringToDelete = getPIDByName PIDS n;
          index = indexOf (activePollers self) stringToDelete
      in self\<lparr>activePollers := splice1 index (activePollers self)\<rparr>)"

text \<open>
  The loop of \<^verbatim>\<open>writePollers\<close>: \<^verbatim>\<open>this.write(this.activePollers[i], 1)\<close> for each
  entry, which is a text or \<^verbatim>\<open>undefined\<close>. An exception that leaves \<^verbatim>\<open>write\<close>
  leaves the loop.
\<close>

fun writePollersLoop ::
  "string option list \<Rightarrow> string list \<Rightarrow> OBDReader \<Rightarrow> string list \<times> event list"
where
  "writePollersLoop [] queue self = (queue, [])"
| "writePollersLoop (p # ps) queue self =
     (let (queue1, out1) =
            (case p of
               Some message \<Rightarrow> write queue self message (Some 1)
             | None \<Rightarrow> writeUndefined queue self (Some 1))
      in if escapes self out1 then (queue1, out1)
         else (let (queue2, out2) = writePollersLoop ps queue1 self
               in (queue2, out1 @ out2)))"

definition writePollers :: "string list \<Rightarrow> OBDReader \<Rightarrow> string list \<times> event list" where
  "writePollers queue self = writePollersLoop (activePollers self) queue self"



text \<open>
  One period of the poller timer whose handle the reader holds, and one of a poller timer
  left behind by an earlier \<^verbatim>\<open>startPolling\<close>: the callback runs only while the timer is
  scheduled.
\<close>

definition strayPollerFires :: "string list \<Rightarrow> OBDReader \<Rightarrow> string list \<times> event list" where
  "strayPollerFires queue self =
     (if strayPollerTimers self = [] then (queue, []) else writePollers queue self)"

definition pollerIntervalFires :: "string list \<Rightarrow> OBDReader \<Rightarrow> string list \<times> event list" where
  "pollerIntervalFires queue self =
     (case pollerInterval self of
        None \<Rightarrow> (queue, [])
      | Some period \<Rightarrow> writePollers queue self)"

subsection \<open>Several readers in one process\<close>

text \<open>
  \<^verbatim>\<open>queue\<close> is declared once, at module level, outside the class; the readers are
  objects of their own. A process is the one queue and the readers by number.
\<close>

record process =
  moduleQueue :: "string list"
  readers :: "nat \<Rightarrow> OBDReader"

definition writeOn :: "nat \<Rightarrow> string \<Rightarrow> int option \<Rightarrow> process \<Rightarrow> process" where
  "writeOn i message replies0 pr =
     pr\<lparr>moduleQueue :=
          fst (write (moduleQueue pr) (readers pr i) message replies0)\<rparr>"

definition disconnectOn :: "nat \<Rightarrow> process \<Rightarrow> process" where
  "disconnectOn i pr =
     (let (queue1, self1, threw) = disconnect (moduleQueue pr) (readers pr i)
      in pr\<lparr>moduleQueue := queue1, readers := (readers pr)(i := self1)\<rparr>)"

subsection \<open>A small table for the examples\<close>

text \<open>
  Four entries in the shape the table has: engine speed (two bytes), vehicle speed (one
  byte), an entry of width three, and the mode 03 entry, which has no pid. The conversion of
  each returns the tokens it was called with, so that an example shows what was routed to it.
\<close>

definition examplePIDS :: "string option list pidEntry list" where
  "examplePIDS =
     [\<lparr>mode = ''01'', pid = Some ''0C'', bytes = 2, name = ''rpm'', convertToUseful = (\<lambda>args. args)\<rparr>,
      \<lparr>mode = ''01'', pid = Some ''0D'', bytes = 1, name = ''vss'', convertToUseful = (\<lambda>args. args)\<rparr>,
      \<lparr>mode = ''01'', pid = Some ''7F'', bytes = 3, name = ''wide'', convertToUseful = (\<lambda>args. args)\<rparr>,
      \<lparr>mode = ''03'', pid = None, bytes = 6, name = ''requestdtc'', convertToUseful = (\<lambda>args. args)\<rparr>]"

definition exampleReader :: OBDReader where
  "exampleReader =
     \<lparr>connected = True, receivedData = [], protocol = ''0'', btSerial = Some 1,
      intervalWriter = Some 50, activePollers = [], pollerInterval = None,
      errorListeners = 1, strayDrainTimers = 0, strayPollerTimers = []\<rparr>"

subsection \<open>The frames of a stream\<close>

text \<open>
  The characters that carry data are all but the two delimiters. \<open>messagesOf\<close> are the texts
  the inner loop of the handler passes to \<^verbatim>\<open>parseOBDCommand\<close> for one piece,
  \<open>framesOf\<close> those of one run of the handler on \<open>currentString\<close>, and \<open>framesFed\<close> those
  of a whole stream, chunk by chunk, from the buffer the handler leaves behind each time.
\<close>

definition payload :: "char \<Rightarrow> bool" where
  "payload c = (c \<noteq> prompt \<and> c \<noteq> CR)"

definition messagesOf :: "string \<Rightarrow> string list" where
  "messagesOf forString = filter (\<lambda>messageString. messageString \<noteq> []) (split CR forString)"

definition framesOf :: "string \<Rightarrow> string list" where
  "framesOf currentString =
     (if length (split prompt currentString) < 2 then []
      else concat (map messagesOf
             (filter (\<lambda>forString. forString \<noteq> []) (split prompt currentString))))"

fun framesFed :: "'v pidEntry list \<Rightarrow> OBDReader \<Rightarrow> string list \<Rightarrow> string list" where
  "framesFed PIDS self [] = []"
| "framesFed PIDS self (data # rest) =
     framesOf (receivedData self @ data) @ framesFed PIDS (fst (dataHandler PIDS self data)) rest"

subsection \<open>The command text, and the operations of a process\<close>

text \<open>
  The text a command has on the wire, in the words of the specification: the command,
  the reply count unless it is zero, a carriage return.
\<close>

definition commandText :: "string \<Rightarrow> int \<Rightarrow> string" where
  "commandText c r = c @ (if r \<noteq> 0 then numberToString r else []) @ [CR]"

text \<open>
  The success callback of \<^verbatim>\<open>btSerial.connect\<close> up to the point where it installs the
  data handler: it marks the reader connected, writes the seven initialisation commands and
  emits \<^verbatim>\<open>connected\<close>. An exception that leaves one of the calls of \<^verbatim>\<open>write\<close>
  leaves the callback.
\<close>

fun writeAll :: "string list \<Rightarrow> string list \<Rightarrow> OBDReader \<Rightarrow> string list \<times> event list" where
  "writeAll [] queue self = (queue, [])"
| "writeAll (m # ms) queue self =
     (let (queue1, out1) = write queue self m None
      in if escapes self out1 then (queue1, out1)
         else (let (queue2, out2) = writeAll ms queue1 self
               in (queue2, out1 @ out2)))"

definition connectedCallback ::
  "string list \<Rightarrow> OBDReader \<Rightarrow> string list \<times> OBDReader \<times> event list"
where
  "connectedCallback queue self =
     (let self1 = self\<lparr>connected := True\<rparr>;
          (queue1, out1) =
            writeAll [''ATZ'', ''ATL0'', ''ATS0'', ''ATH0'', ''ATE0'', ''ATAT2'',
                      ''ATSP'' @ protocol self1] queue self1
      in (queue1, self1, if escapes self1 out1 then out1 else out1 @ [Connected]))"

definition requestValueByName ::
  "'v pidEntry list \<Rightarrow> string list \<Rightarrow> OBDReader \<Rightarrow> string \<Rightarrow> string list \<times> event list"
where
  "requestValueByName PIDS queue self n =
     (case getPIDByName PIDS n of
        Some message \<Rightarrow> write queue self message None
      | None \<Rightarrow> writeUndefined queue self None)"

text \<open>
  What can happen in a process, reader by reader: a call of \<^verbatim>\<open>write\<close> with a text or
  with \<^verbatim>\<open>undefined\<close>, the connected callback, a period of any timer, held or stray,
  \<^verbatim>\<open>disconnect\<close>, and any change of a reader's own state (\<^verbatim>\<open>addPoller\<close>,
  \<^verbatim>\<open>startPolling\<close>, \<^verbatim>\<open>connect\<close>, the data handler, a new listener and so on), none of
  which touches the queue.
\<close>

datatype op =
    OpWrite nat string "int option"
  | OpWriteUndefined nat "int option"
  | OpConnected nat
  | OpPollerFires nat
  | OpStrayPollerFires nat
  | OpDrainFires nat writeOutcome
  | OpStrayDrainFires nat writeOutcome
  | OpDisconnect nat
  | OpLocal nat "OBDReader \<Rightarrow> OBDReader"


fun step :: "op \<Rightarrow> process \<Rightarrow> process" where
  "step (OpWrite i message replies0) pr = writeOn i message replies0 pr"
| "step (OpWriteUndefined i replies0) pr =
     pr\<lparr>moduleQueue := fst (writeUndefined (moduleQueue pr) (readers pr i) replies0)\<rparr>"
| "step (OpConnected i) pr =
     (let (queue1, self1, out1) = connectedCallback (moduleQueue pr) (readers pr i)
      in pr\<lparr>moduleQueue := queue1, readers := (readers pr)(i := self1)\<rparr>)"
| "step (OpPollerFires i) pr =
     pr\<lparr>moduleQueue := fst (pollerIntervalFires (moduleQueue pr) (readers pr i))\<rparr>"
| "step (OpStrayPollerFires i) pr =
     pr\<lparr>moduleQueue := fst (strayPollerFires (moduleQueue pr) (readers pr i))\<rparr>"
| "step (OpDrainFires i outcome) pr =
     (let (queue1, self1, out1, calls1) =
            intervalWriterFires (moduleQueue pr) (readers pr i) outcome
      in pr\<lparr>moduleQueue := queue1, readers := (readers pr)(i := self1)\<rparr>)"
| "step (OpStrayDrainFires i outcome) pr =
     (let (queue1, self1, out1, calls1) =
            strayDrainFires (moduleQueue pr) (readers pr i) outcome
      in pr\<lparr>moduleQueue := queue1, readers := (readers pr)(i := self1)\<rparr>)"
| "step (OpDisconnect i) pr = disconnectOn i pr"
| "step (OpLocal i f) pr = pr\<lparr>readers := (readers pr)(i := f (readers pr i))\<rparr>"

fun run :: "op list \<Rightarrow> process \<Rightarrow> process" where
  "run [] pr = pr"
| "run (x # xs) pr = run xs (step x pr)"

subsection \<open>Widths and tokens, in the words of the specification\<close>

text \<open>
  The widths the \<^verbatim>\<open>switch\<close> of the mode 41 loop has a case for, and a byte token as the
  specification describes it: two hexadecimal digits of either case.
\<close>

definition supportedWidth :: "nat \<Rightarrow> bool" where
  "supportedWidth n = (n = 1 \<or> n = 2 \<or> n = 4 \<or> n = 8)"

definition hexDigit :: "char \<Rightarrow> bool" where
  "hexDigit c = (c \<in> set ''0123456789abcdefABCDEF'')"

definition hexToken :: "string \<Rightarrow> bool" where
  "hexToken t = (length t = 2 \<and> list_all hexDigit t)"



section \<open>Splitting\<close>

lemma split_not_Nil: "split c s \<noteq> []"
  by (induction s) (auto split: list.splits)

lemma concat_split: "concat (split c s) = filter (\<lambda>x. x \<noteq> c) s"
  by (induction s) (auto split: list.splits simp: split_not_Nil)

lemma split_absent: "c \<notin> set s \<Longrightarrow> split c s = [s]"
  by (induction s) auto

lemma split_present: "c \<in> set s \<Longrightarrow> 2 \<le> length (split c s)"
proof (induction s)
  case Nil
  then show ?case by simp
next
  case (Cons x xs)
  have "1 \<le> length (split c xs)"
    using split_not_Nil [of c xs] by (cases "split c xs") auto
  with Cons show ?case by (auto split: list.splits)
qed

lemma concat_messagesOf: "concat (messagesOf p) = filter (\<lambda>x. x \<noteq> CR) p"
proof -
  have "concat (filter (\<lambda>m. m \<noteq> []) xs) = concat xs" for xs :: "string list"
    by (induction xs) auto
  then show ?thesis by (simp add: messagesOf_def concat_split)
qed

lemma concat_frames_pieces:
  "concat (concat (map messagesOf (filter (\<lambda>p. p \<noteq> []) ps))) =
     filter (\<lambda>x. x \<noteq> CR) (concat ps)"
  by (induction ps) (auto simp: concat_messagesOf)

lemma payload_filter:
  "filter payload s = filter (\<lambda>x. x \<noteq> CR) (filter (\<lambda>x. x \<noteq> prompt) s)"
  by (induction s) (auto simp: payload_def)

section \<open>The data handler\<close>

lemma messageLoop_run:
  "messageLoop PIDS ms (self, out) =
     (if filter (\<lambda>m. m \<noteq> []) ms = [] then self else self\<lparr>receivedData := []\<rparr>,
      out @ map (parseOBDCommand PIDS) (filter (\<lambda>m. m \<noteq> []) ms))"
  by (induction ms arbitrary: self out) auto

lemma commandLoop_run:
  "commandLoop PIDS ps (self, out) =
     (if concat (map messagesOf (filter (\<lambda>p. p \<noteq> []) ps)) = [] then self
      else self\<lparr>receivedData := []\<rparr>,
      out @ map (parseOBDCommand PIDS)
              (concat (map messagesOf (filter (\<lambda>p. p \<noteq> []) ps))))"
  by (induction ps arbitrary: self out) (auto simp: messageLoop_run messagesOf_def)

lemma dataHandler_events:
  "snd (dataHandler PIDS self data) =
     map (parseOBDCommand PIDS) (framesOf (receivedData self @ data))"
  by (simp add: dataHandler_def framesOf_def Let_def commandLoop_run)

lemma dataHandler_bytes:
  "filter payload (receivedData self @ data) =
     concat (framesOf (receivedData self @ data)) @
     filter payload (receivedData (fst (dataHandler PIDS self data)))"
proof (cases "prompt \<in> set (receivedData self @ data)")
  case False
  then have "split prompt (receivedData self @ data) = [receivedData self @ data]"
    by (rule split_absent)
  then show ?thesis by (simp add: dataHandler_def framesOf_def)
next
  case True
  define cur where "cur = receivedData self @ data"
  define fs where
    "fs = concat (map messagesOf (filter (\<lambda>p. p \<noteq> []) (split prompt cur)))"
  have len: "\<not> length (split prompt cur) < 2"
    using split_present [OF True] by (simp add: cur_def)
  have all: "concat fs = filter payload cur"
    unfolding fs_def by (simp only: concat_frames_pieces concat_split payload_filter)
  have fr: "framesOf cur = fs"
    using len by (simp add: framesOf_def fs_def)
  have st: "fst (dataHandler PIDS self data) =
              (if fs = [] then self else self\<lparr>receivedData := []\<rparr>)"
    using len unfolding fs_def cur_def by (simp add: dataHandler_def Let_def commandLoop_run)
  show ?thesis
  proof (cases "fs = []")
    case True
    with all have "filter payload cur = []" by simp
    then have "filter payload (receivedData self) = []" by (simp add: cur_def)
    with True all fr st show ?thesis unfolding cur_def [symmetric] by simp
  next
    case False
    with all fr st show ?thesis unfolding cur_def [symmetric] by simp
  qed
qed

lemma feed_events:
  "snd (feed PIDS self chunks) =
     map (parseOBDCommand PIDS) (framesFed PIDS self chunks)"
proof (induction chunks arbitrary: self)
  case Nil
  show ?case by simp
next
  case (Cons d ds)
  show ?case
    using Cons [of "fst (dataHandler PIDS self d)"] dataHandler_events [of PIDS self d]
    by (simp add: split_beta Let_def)
qed

lemma feed_bytes:
  "filter payload (receivedData self @ concat chunks) =
     concat (framesFed PIDS self chunks) @
     filter payload (receivedData (fst (feed PIDS self chunks)))"
proof (induction chunks arbitrary: self)
  case Nil
  show ?case by simp
next
  case (Cons d ds)
  have "filter payload (receivedData self @ concat (d # ds)) =
        filter payload (receivedData self @ d) @ filter payload (concat ds)"
    by simp
  also have "\<dots> = concat (framesOf (receivedData self @ d)) @
        filter payload (receivedData (fst (dataHandler PIDS self d)) @ concat ds)"
    using dataHandler_bytes [of self d PIDS] by simp
  also have "\<dots> = concat (framesOf (receivedData self @ d)) @
        concat (framesFed PIDS (fst (dataHandler PIDS self d)) ds) @
        filter payload (receivedData (fst (feed PIDS (fst (dataHandler PIDS self d)) ds)))"
    using Cons [of "fst (dataHandler PIDS self d)"] by simp
  finally show ?case by (simp add: split_beta Let_def)
qed

lemma feed_one_chunk:
  "feed PIDS (self\<lparr>receivedData := []\<rparr>) [''41 0C 1A F8>''] =
     (self\<lparr>receivedData := []\<rparr>, [parseOBDCommand PIDS ''41 0C 1A F8''])"
  by (simp add: dataHandler_def prompt_def CR_def)

lemma feed_two_chunks:
  "feed PIDS (self\<lparr>receivedData := []\<rparr>) [''41 0C 1A'', ''F8>''] =
     (self\<lparr>receivedData := []\<rparr>, [parseOBDCommand PIDS ''41 0C 1AF8''])"
  by (simp add: dataHandler_def prompt_def CR_def)

lemma parse_same_without_space:
  "parseOBDCommand PIDS ''41 0C 1AF8'' = parseOBDCommand PIDS ''41 0C 1A F8''"
  by (simp add: parseOBDCommand_def statusTokens_def valueArrayOf_def stripSpaces_def)

text \<open>
  Claim C1. The framer loses no byte. For every buffer the reader starts with and every
  sequence of chunks: the \<^verbatim>\<open>dataReceived\<close> events emitted are, in order, the replies to
  the frames cut from the stream; and the data characters of the buffer followed by all the
  chunks (everything but the delimiters \<^verbatim>\<open>>\<close> and carriage return) are exactly the
  frames, concatenated in order, followed by the data characters still in
  \<^verbatim>\<open>receivedData\<close>. So no character is dropped and none occurs twice, wherever the
  chunk boundaries fall. In particular, from an empty buffer the text \<^verbatim>\<open>41 0C 1A F8>\<close>
  in one chunk gives exactly one event and leaves the buffer empty, and the two chunks
  \<^verbatim>\<open>41 0C 1A\<close> and \<^verbatim>\<open>F8>\<close> give the same single event and the same buffer; in
  both cases the one frame is, its spaces removed, \<^verbatim>\<open>410C1AF8\<close>.
\<close>

theorem framer_loses_no_byte:
  "snd (feed PIDS self chunks) = map (parseOBDCommand PIDS) (framesFed PIDS self chunks)
   \<and> filter payload (receivedData self @ concat chunks) =
       concat (framesFed PIDS self chunks) @
       filter payload (receivedData (fst (feed PIDS self chunks)))
   \<and> feed PIDS (self\<lparr>receivedData := []\<rparr>) [''41 0C 1A F8>''] =
       (self\<lparr>receivedData := []\<rparr>, [parseOBDCommand PIDS ''41 0C 1A F8''])
   \<and> feed PIDS (self\<lparr>receivedData := []\<rparr>) [''41 0C 1A'', ''F8>''] =
       feed PIDS (self\<lparr>receivedData := []\<rparr>) [''41 0C 1A F8>'']
   \<and> map stripSpaces (framesFed PIDS (self\<lparr>receivedData := []\<rparr>) [''41 0C 1A F8>'']) =
       [''410C1AF8'']
   \<and> map stripSpaces (framesFed PIDS (self\<lparr>receivedData := []\<rparr>) [''41 0C 1A'', ''F8>'']) =
       [''410C1AF8'']"
proof -
  have same: "feed PIDS (self\<lparr>receivedData := []\<rparr>) [''41 0C 1A'', ''F8>''] =
        feed PIDS (self\<lparr>receivedData := []\<rparr>) [''41 0C 1A F8>'']"
    by (simp only: feed_one_chunk feed_two_chunks parse_same_without_space)
  have one: "map stripSpaces (framesFed PIDS (self\<lparr>receivedData := []\<rparr>) [''41 0C 1A F8>'']) =
        [''410C1AF8'']"
    by (simp add: framesOf_def messagesOf_def stripSpaces_def prompt_def CR_def)
  have two: "map stripSpaces (framesFed PIDS (self\<lparr>receivedData := []\<rparr>) [''41 0C 1A'', ''F8>'']) =
        [''410C1AF8'']"
    by (simp add: framesOf_def messagesOf_def stripSpaces_def dataHandler_def prompt_def CR_def)
  show ?thesis
    using feed_events [of PIDS self chunks] feed_bytes [of self chunks PIDS]
      feed_one_chunk [of PIDS self] same one two
    by blast
qed

section \<open>The queue\<close>

lemma write_length: "length queue \<le> 256 \<Longrightarrow> length (fst (write queue self m r)) \<le> 256"
  by (simp add: write_def Let_def)

lemma writeUndefined_length:
  "length queue \<le> 256 \<Longrightarrow> length (fst (writeUndefined queue self r)) \<le> 256"
  by (simp add: writeUndefined_def Let_def)

lemma writeAll_length:
  "length queue \<le> 256 \<Longrightarrow> length (fst (writeAll ms queue self)) \<le> 256"
proof (induction ms arbitrary: queue)
  case Nil then show ?case by simp
next
  case (Cons m ms)
  from Cons.prems have w: "length (fst (write queue self m None)) \<le> 256"
    by (rule write_length)
  from Cons.IH [OF w] w show ?case by (simp add: split_beta)
qed

lemma writePollersLoop_length:
  "length queue \<le> 256 \<Longrightarrow> length (fst (writePollersLoop ps queue self)) \<le> 256"
proof (induction ps arbitrary: queue)
  case Nil then show ?case by simp
next
  case (Cons p ps)
  define first where
    "first = (case p of
                Some message \<Rightarrow> write queue self message (Some 1)
              | None \<Rightarrow> writeUndefined queue self (Some 1))"
  from Cons.prems have w: "length (fst first) \<le> 256"
    by (simp add: first_def write_length writeUndefined_length split: option.splits)
  from Cons.IH [OF w] w show ?case by (simp add: split_beta first_def)
qed

lemma drainTick_length:
  "length queue \<le> 256 \<Longrightarrow> length (fst (drainTick queue self outcome)) \<le> 256"
  by (auto simp: drainTick_def split_beta split: option.splits writeOutcome.splits)

lemma connectedCallback_length:
  "length queue \<le> 256 \<Longrightarrow> length (fst (connectedCallback queue self)) \<le> 256"
  using writeAll_length [of queue]
  by (simp add: connectedCallback_def split_beta Let_def del: writeAll.simps)

lemma step_length:
  assumes "length (moduleQueue pr) \<le> 256"
  shows "length (moduleQueue (step x pr)) \<le> 256"
proof (cases x)
  case (OpWrite i m r)
  with assms show ?thesis by (simp add: writeOn_def write_length)
next
  case (OpWriteUndefined i r)
  with assms show ?thesis by (simp add: writeUndefined_length)
next
  case (OpConnected i)
  with assms show ?thesis by (simp add: split_beta connectedCallback_length)
next
  case (OpPollerFires i)
  with assms show ?thesis
    by (simp add: pollerIntervalFires_def writePollers_def writePollersLoop_length
          split: option.splits)
next
  case (OpStrayPollerFires i)
  with assms show ?thesis
    by (simp add: strayPollerFires_def writePollers_def writePollersLoop_length)
next
  case (OpDrainFires i outcome)
  with assms show ?thesis
    by (simp add: intervalWriterFires_def split_beta drainTick_length split: option.splits)
next
  case (OpStrayDrainFires i outcome)
  with assms show ?thesis
    by (simp add: strayDrainFires_def split_beta drainTick_length)
next
  case (OpDisconnect i)
  then show ?thesis
    by (simp add: disconnectOn_def disconnect_def Let_def split: option.splits)
next
  case (OpLocal i f)
  with assms show ?thesis by simp
qed

lemma run_length:
  "length (moduleQueue pr) \<le> 256 \<Longrightarrow> length (moduleQueue (run xs pr)) \<le> 256"
  by (induction xs arbitrary: pr) (auto intro: step_length)

lemma write_enqueues:
  "connected self \<Longrightarrow> length queue < 256 \<Longrightarrow>
     write queue self c (Some r) = (queue @ [commandText c r], [])"
  by (simp add: write_def commandText_def)

lemma write_enqueues_default:
  "connected self \<Longrightarrow> length queue < 256 \<Longrightarrow>
     write queue self c None = (queue @ [commandText c 0], [])"
  by (simp add: write_def commandText_def)

lemma drainTick_head:
  "connected self \<Longrightarrow> btSerial self = Some port \<Longrightarrow> queue \<noteq> [] \<Longrightarrow>
     fst (drainTick queue self outcome) = tl queue \<and>
     snd (snd (snd (drainTick queue self outcome))) = [(port, hd queue)]"
  by (cases outcome) (simp_all add: drainTick_def split_beta)

lemma drainTicks_fifo:
  "connected self \<Longrightarrow> btSerial self = Some port \<Longrightarrow> intervalWriter self = Some period \<Longrightarrow>
     n \<le> length queue \<Longrightarrow>
     drainTicks queue self (replicate n WriteOk) =
       (drop n queue, self, [], map (Pair port) (take n queue))"
proof (induction n arbitrary: queue)
  case 0
  then show ?case by simp
next
  case (Suc n)
  then obtain x xs where q: "queue = x # xs" by (cases queue) auto
  with Suc.prems have "n \<le> length xs" by simp
  from Suc.IH [OF Suc.prems(1-3) this] Suc.prems(1-3) q
  show ?case by (simp add: intervalWriterFires_def drainTick_def)
qed


text \<open>
  Claim C2, as amended. On a connected reader with fewer than 256 commands queued,
  \<^verbatim>\<open>write(c, r)\<close> appends exactly the text \<open>c\<close>, then \<open>r\<close> unless it is zero, then a
  carriage return, and emits nothing (an absent \<open>r\<close> counts as zero). One period of the drain
  timer then removes exactly one command, the oldest, and hands its text to
  \<^verbatim>\<open>btSerial.write\<close>, whatever the transport does with it: the queue is as long as before
  the write. The command removed is the one just written when the queue was empty before.
  Periods in a row hand the commands over in the order they were queued.
\<close>

theorem write_then_drain_tick:
  assumes "connected self" and "length queue < 256"
    and "btSerial self = Some port" and "intervalWriter self = Some period"
  shows "write queue self c (Some r) = (queue @ [commandText c r], [])
    \<and> write queue self c None = (queue @ [commandText c 0], [])
    \<and> fst (drainTick (queue @ [commandText c r]) self outcome) = tl (queue @ [commandText c r])
    \<and> length (fst (drainTick (queue @ [commandText c r]) self outcome)) = length queue
    \<and> snd (snd (snd (drainTick (queue @ [commandText c r]) self outcome))) =
        [(port, hd (queue @ [commandText c r]))]
    \<and> snd (snd (snd (drainTick [commandText c r] self outcome))) = [(port, commandText c r)]
    \<and> drainTicks (queue @ [commandText c r]) self (replicate (length queue + 1) WriteOk) =
        ([], self, [], map (Pair port) (queue @ [commandText c r]))"
proof -
  have ne: "queue @ [commandText c r] \<noteq> []" by simp
  note head = drainTick_head [OF assms(1) assms(3) ne, of outcome]
  have "length (fst (drainTick (queue @ [commandText c r]) self outcome)) = length queue"
    using head by simp
  moreover have "snd (snd (snd (drainTick [commandText c r] self outcome))) =
      [(port, commandText c r)]"
    using drainTick_head [OF assms(1) assms(3), of "[commandText c r]" outcome] by simp
  moreover have "drainTicks (queue @ [commandText c r]) self (replicate (length queue + 1) WriteOk) =
        ([], self, [], map (Pair port) (queue @ [commandText c r]))"
    using drainTicks_fifo [OF assms(1) assms(3) assms(4), of "length queue + 1" "queue @ [commandText c r]"]
    by simp
  ultimately show ?thesis
    using head write_enqueues [OF assms(1,2)] write_enqueues_default [OF assms(1,2)] by blast
qed

theorem write_then_drain_tick_witness:
  "connected exampleReader \<and> length [''ATZ'' @ [CR]] < 256
   \<and> btSerial exampleReader = Some 1 \<and> intervalWriter exampleReader = Some 50
   \<and> write [''ATZ'' @ [CR]] exampleReader ''010C'' (Some 1) =
       ([''ATZ'' @ [CR], ''010C1'' @ [CR]], [])
   \<and> drainTicks [''ATZ'' @ [CR], ''010C1'' @ [CR]] exampleReader [WriteOk, WriteOk] =
       ([], exampleReader, [], [(1, ''ATZ'' @ [CR]), (1, ''010C1'' @ [CR])])"
proof -
  have h1: "connected exampleReader" by (simp add: exampleReader_def)
  have h2: "length [''ATZ'' @ [CR]] < 256" by simp
  have h3: "btSerial exampleReader = Some 1" by (simp add: exampleReader_def)
  have h4: "intervalWriter exampleReader = Some 50" by (simp add: exampleReader_def)
  have cmd: "commandText ''010C'' 1 = ''010C1'' @ [CR]"
    by (simp add: commandText_def numberToString_def showNat.simps)
  have two: "replicate (length [''ATZ'' @ [CR]] + 1) WriteOk = [WriteOk, WriteOk]"
    by (simp add: numeral_2_eq_2)
  from write_then_drain_tick [OF h1 h2 h3 h4, of "''010C''" 1 WriteOk]
  show ?thesis using h1 h3 h4 by (simp add: cmd two)
qed

text \<open>
  Claim C2 as stated fails when a command is already waiting: with \<^verbatim>\<open>ATZ\<close> queued,
  writing \<^verbatim>\<open>010C\<close> with reply count 1 and draining once hands over \<^verbatim>\<open>ATZ\<close>; the
  command just written is still in the queue.
\<close>

theorem write_then_drain_tick_counterexample:
  "drainTick (fst (write [''ATZ'' @ [CR]] exampleReader ''010C'' (Some 1))) exampleReader WriteOk =
     ([''010C1'' @ [CR]], exampleReader, [], [(1, ''ATZ'' @ [CR])])
   \<and> ''ATZ'' @ [CR] \<noteq> commandText ''010C'' 1"
  by (simp add: write_def drainTick_def exampleReader_def commandText_def numberToString_def
        showNat.simps)

text \<open>
  Claim C3, as amended. On a connected reader, \<^verbatim>\<open>write\<close> with 256 commands queued emits
  the error \<^verbatim>\<open>Queue-overflow!\<close> and leaves the queue as it was; on a reader that is not
  connected the error is \<^verbatim>\<open>Bluetooth device is not connected.\<close> instead, the queue
  again unchanged. Starting from an empty queue, no sequence of operations of any readers
  makes the queue longer than 256.
\<close>

theorem write_on_full_queue:
  assumes "connected self" and "length queue = 256"
  shows "write queue self c r = (queue, [Error ''Queue-overflow!''])
    \<and> write queue (self\<lparr>connected := False\<rparr>) c r =
        (queue, [Error ''Bluetooth device is not connected.''])
    \<and> length (moduleQueue (run ops (pr\<lparr>moduleQueue := []\<rparr>))) \<le> 256"
proof -
  have "length (moduleQueue (run ops (pr\<lparr>moduleQueue := []\<rparr>))) \<le> 256"
    by (rule run_length) simp
  with assms show ?thesis by (simp add: write_def Let_def)
qed

theorem write_on_full_queue_witness:
  "connected exampleReader \<and> length (replicate 256 (''ATZ'' @ [CR])) = 256
   \<and> write (replicate 256 (''ATZ'' @ [CR])) exampleReader ''010C'' (Some 1) =
       (replicate 256 (''ATZ'' @ [CR]), [Error ''Queue-overflow!''])"
proof -
  have h1: "connected exampleReader" by (simp add: exampleReader_def)
  have h2: "length (replicate 256 (''ATZ'' @ [CR])) = 256" by simp
  from write_on_full_queue [OF h1 h2, of "''010C''" "Some 1"]
  show ?thesis using h1 h2 by blast
qed

text \<open>
  Claim C3 as stated fails on a reader that is not connected: with 256 commands queued, the
  error emitted is not the overflow error.
\<close>

theorem write_on_full_queue_counterexample:
  "length (replicate 256 (''ATZ'' @ [CR])) = 256
   \<and> write (replicate 256 (''ATZ'' @ [CR])) (exampleReader\<lparr>connected := False\<rparr>) ''010C'' (Some 1) =
       (replicate 256 (''ATZ'' @ [CR]),
        [Error ''Bluetooth device is not connected.''])
   \<and> [Error ''Bluetooth device is not connected.''] \<noteq> [Error ''Queue-overflow!'']"
  by (simp add: write_def)




section \<open>Decoding\<close>

lemma pidLoop41_none:
  "find (\<lambda>e. pid e = reply_pid r) PIDS = None \<Longrightarrow> pidLoop41 PIDS valueArray r = r"
  by (induction PIDS) (auto split: if_splits)

lemma upt_widths:
  "[2 ..< 3] = [2::nat]" "[2 ..< 4] = [2, 3::nat]" "[2 ..< 6] = [2, 3, 4, 5::nat]"
  "[2 ..< 10] = [2, 3, 4, 5, 6, 7, 8, 9::nat]"
  by (simp_all add: upt_rec)

lemma pidLoop41_supported:
  "find (\<lambda>e. pid e = reply_pid r) PIDS = Some e \<Longrightarrow> supportedWidth (bytes e) \<Longrightarrow>
     pidLoop41 PIDS valueArray r =
       r\<lparr>reply_name := Some (name e),
         reply_value := Some (Converted (convertToUseful e
            (map (at valueArray) [2 ..< 2 + bytes e])))\<rparr>"
proof (induction PIDS)
  case Nil
  then show ?case by simp
next
  case (Cons x xs)
  show ?case
  proof (cases "pid x = reply_pid r")
    case True
    with Cons.prems have "x = e" by simp
    with True Cons.prems(2) show ?thesis
      unfolding supportedWidth_def by (elim disjE) (simp_all add: upt_widths)
  next
    case False
    with Cons show ?thesis by simp
  qed
qed

lemma pidLoop41_unsupported:
  "find (\<lambda>e. pid e = reply_pid r) PIDS = Some e \<Longrightarrow> \<not> supportedWidth (bytes e) \<Longrightarrow>
     pidLoop41 PIDS valueArray r = r\<lparr>reply_name := Some (name e)\<rparr>"
proof (induction PIDS)
  case Nil
  then show ?case by simp
next
  case (Cons x xs)
  show ?case
  proof (cases "pid x = reply_pid r")
    case True
    with Cons.prems have "x = e" by simp
    with True Cons.prems(2) show ?thesis
      by (simp add: supportedWidth_def)
  next
    case False
    with Cons show ?thesis by simp
  qed
qed

lemma status_not_41: "hexString \<in> set statusTokens \<Longrightarrow> at (valueArrayOf hexString) 0 \<noteq> Some ''41''"
  by (auto simp: statusTokens_def valueArrayOf_def stripSpaces_def at_def)

lemma parse_mode41:
  assumes "at (valueArrayOf frame) 0 = Some ''41''"
  shows "parseOBDCommand PIDS frame =
     pidLoop41 PIDS (valueArrayOf frame)
       (emptyReply\<lparr>reply_mode := Some ''41'', reply_pid := at (valueArrayOf frame) 1\<rparr>)"
proof -
  have "frame \<notin> set statusTokens" using assms status_not_41 by blast
  with assms show ?thesis by (simp add: parseOBDCommand_def Let_def)
qed

lemma pidLoop41_find:
  "pidLoop41 PIDS valueArray r =
     (case find (\<lambda>e. pid e = reply_pid r) PIDS of
        None \<Rightarrow> r
      | Some e \<Rightarrow>
          r\<lparr>reply_name := Some (name e),
            reply_value :=
              (if supportedWidth (bytes e) then
                 Some (Converted (convertToUseful e (map (at valueArray) [2 ..< 2 + bytes e])))
               else reply_value r)\<rparr>)"
proof (cases "find (\<lambda>e. pid e = reply_pid r) PIDS")
  case None
  then show ?thesis by (simp add: pidLoop41_none)
next
  case (Some e)
  then show ?thesis
    by (cases "supportedWidth (bytes e)")
      (simp_all add: pidLoop41_supported pidLoop41_unsupported)
qed

text \<open>
  Claim C5, as amended. For a frame whose first byte token is \<^verbatim>\<open>41\<close> the reply has the
  mode \<^verbatim>\<open>41\<close> and, as its pid, the second token. When no entry of the table has that
  pid, the reply carries nothing else. When one has, the first such entry in table order
  names the reply; if its width is one of 1, 2, 4 and 8 the value is its conversion applied
  to exactly that many tokens after the pid (a token the frame is too short for is passed as
  \<^verbatim>\<open>undefined\<close>), and for any other width there is no value. A frame without a second
  token has the pid \<^verbatim>\<open>undefined\<close>, which is the pid of an entry that has none. The
  tokens are cut after the spaces of the frame are removed. The function has no way to
  report an error.
\<close>

theorem decode_mode41:
  assumes "at (valueArrayOf frame) 0 = Some ''41''"
  shows "parseOBDCommand PIDS frame =
     (case find (\<lambda>e. pid e = at (valueArrayOf frame) 1) PIDS of
        None \<Rightarrow>
          \<lparr>reply_value = None, reply_name = None,
           reply_mode = Some ''41'', reply_pid = at (valueArrayOf frame) 1\<rparr>
      | Some e \<Rightarrow>
          \<lparr>reply_value =
             (if supportedWidth (bytes e) then
                Some (Converted (convertToUseful e
                  (map (at (valueArrayOf frame)) [2 ..< 2 + bytes e])))
              else None),
           reply_name = Some (name e),
           reply_mode = Some ''41'', reply_pid = at (valueArrayOf frame) 1\<rparr>)
    \<and> valueArrayOf frame = byteTokens (filter (\<lambda>c. c \<noteq> CHR '' '') frame)"
proof -
  have "parseOBDCommand PIDS frame =
     (case find (\<lambda>e. pid e = at (valueArrayOf frame) 1) PIDS of
        None \<Rightarrow>
          \<lparr>reply_value = None, reply_name = None,
           reply_mode = Some ''41'', reply_pid = at (valueArrayOf frame) 1\<rparr>
      | Some e \<Rightarrow>
          \<lparr>reply_value =
             (if supportedWidth (bytes e) then
                Some (Converted (convertToUseful e
                  (map (at (valueArrayOf frame)) [2 ..< 2 + bytes e])))
              else None),
           reply_name = Some (name e),
           reply_mode = Some ''41'', reply_pid = at (valueArrayOf frame) 1\<rparr>)"
    by (simp add: parse_mode41 [OF assms] pidLoop41_find emptyReply_def split: option.splits)
  then show ?thesis by (simp add: valueArrayOf_def stripSpaces_def)
qed

lemma va1: "valueArrayOf ''410C1AF8'' = [''41'', ''0C'', ''1A'', ''F8'']"
  by (simp add: valueArrayOf_def stripSpaces_def)

lemma va2: "valueArrayOf ''4105'' = [''41'', ''05'']"
  by (simp add: valueArrayOf_def stripSpaces_def)

lemma va4: "valueArrayOf ''41 0C 1A F8'' = [''41'', ''0C'', ''1A'', ''F8'']"
  by (simp add: valueArrayOf_def stripSpaces_def)

lemma va5: "valueArrayOf ''41 0D 3'' = [''41'', ''0D'', ''3'']"
  by (simp add: valueArrayOf_def stripSpaces_def)

lemma va6: "valueArrayOf ''410C1A'' = [''41'', ''0C'', ''1A'']"
  by (simp add: valueArrayOf_def stripSpaces_def)

theorem decode_mode41_witness:
  "at (valueArrayOf ''410C1AF8'') 0 = Some ''41''
   \<and> parseOBDCommand examplePIDS ''410C1AF8'' =
       \<lparr>reply_value = Some (Converted [Some ''1A'', Some ''F8'']), reply_name = Some ''rpm'',
        reply_mode = Some ''41'', reply_pid = Some ''0C''\<rparr>
   \<and> at (valueArrayOf ''41 0C 1A F8'') 0 = Some ''41''
   \<and> parseOBDCommand examplePIDS ''41 0C 1A F8'' =
       \<lparr>reply_value = Some (Converted [Some ''1A'', Some ''F8'']), reply_name = Some ''rpm'',
        reply_mode = Some ''41'', reply_pid = Some ''0C''\<rparr>
   \<and> at (valueArrayOf ''41 0D 3'') 0 = Some ''41''
   \<and> parseOBDCommand examplePIDS ''41 0D 3'' =
       \<lparr>reply_value = Some (Converted [Some ''3'']), reply_name = Some ''vss'',
        reply_mode = Some ''41'', reply_pid = Some ''0D''\<rparr>
   \<and> at (valueArrayOf ''410C1A'') 0 = Some ''41''
   \<and> parseOBDCommand examplePIDS ''410C1A'' =
       \<lparr>reply_value = Some (Converted [Some ''1A'', None]), reply_name = Some ''rpm'',
        reply_mode = Some ''41'', reply_pid = Some ''0C''\<rparr>
   \<and> at (valueArrayOf ''4105'') 0 = Some ''41''
   \<and> parseOBDCommand examplePIDS ''4105'' =
       \<lparr>reply_value = None, reply_name = None,
        reply_mode = Some ''41'', reply_pid = Some ''05''\<rparr>"
proof -
  have h1: "at (valueArrayOf ''410C1AF8'') 0 = Some ''41''" by (simp add: va1 at_def)
  have h6: "at (valueArrayOf ''410C1A'') 0 = Some ''41''" by (simp add: va6 at_def)
  have e: "parseOBDCommand examplePIDS ''410C1A'' =
       \<lparr>reply_value = Some (Converted [Some ''1A'', None]), reply_name = Some ''rpm'',
        reply_mode = Some ''41'', reply_pid = Some ''0C''\<rparr>"
    using decode_mode41 [OF h6, of examplePIDS]
    by (simp add: va6 at_def examplePIDS_def supportedWidth_def upt_widths)
  have h2: "at (valueArrayOf ''4105'') 0 = Some ''41''" by (simp add: va2 at_def)
  have h4: "at (valueArrayOf ''41 0C 1A F8'') 0 = Some ''41''" by (simp add: va4 at_def)
  have h5: "at (valueArrayOf ''41 0D 3'') 0 = Some ''41''" by (simp add: va5 at_def)
  have a: "parseOBDCommand examplePIDS ''410C1AF8'' =
       \<lparr>reply_value = Some (Converted [Some ''1A'', Some ''F8'']), reply_name = Some ''rpm'',
        reply_mode = Some ''41'', reply_pid = Some ''0C''\<rparr>"
    using decode_mode41 [OF h1, of examplePIDS]
    by (simp add: va1 at_def examplePIDS_def supportedWidth_def upt_widths)
  have b: "parseOBDCommand examplePIDS ''4105'' =
       \<lparr>reply_value = None, reply_name = None,
        reply_mode = Some ''41'', reply_pid = Some ''05''\<rparr>"
    using decode_mode41 [OF h2, of examplePIDS]
    by (simp add: va2 at_def examplePIDS_def)
  have c: "parseOBDCommand examplePIDS ''41 0C 1A F8'' =
       \<lparr>reply_value = Some (Converted [Some ''1A'', Some ''F8'']), reply_name = Some ''rpm'',
        reply_mode = Some ''41'', reply_pid = Some ''0C''\<rparr>"
    using decode_mode41 [OF h4, of examplePIDS]
    by (simp add: va4 at_def examplePIDS_def supportedWidth_def upt_widths)
  have d: "parseOBDCommand examplePIDS ''41 0D 3'' =
       \<lparr>reply_value = Some (Converted [Some ''3'']), reply_name = Some ''vss'',
        reply_mode = Some ''41'', reply_pid = Some ''0D''\<rparr>"
    using decode_mode41 [OF h5, of examplePIDS]
    by (simp add: va5 at_def examplePIDS_def supportedWidth_def upt_widths)
  from h1 h2 h4 h5 h6 a b c d e show ?thesis by blast
qed

text \<open>
  Claim C5 as stated fails in two ways. The frame \<^verbatim>\<open>41 7F 01 02 03\<close> matches the
  entry of pid \<^verbatim>\<open>7F\<close>, whose width is three, and the reply has that entry's name and no
  value: the conversion is not applied to the three tokens that follow. The frame
  \<^verbatim>\<open>41\<close> has no second token and is nevertheless given the name of the entry that has
  no pid.
\<close>

theorem decode_mode41_counterexample:
  "pid (examplePIDS ! 2) = Some ''7F'' \<and> bytes (examplePIDS ! 2) = 3
   \<and> valueArrayOf ''41 7F 01 02 03'' = [''41'', ''7F'', ''01'', ''02'', ''03'']
   \<and> parseOBDCommand examplePIDS ''41 7F 01 02 03'' =
       \<lparr>reply_value = None, reply_name = Some ''wide'',
        reply_mode = Some ''41'', reply_pid = Some ''7F''\<rparr>
   \<and> reply_value (parseOBDCommand examplePIDS ''41 7F 01 02 03'') \<noteq>
       Some (Converted (convertToUseful (examplePIDS ! 2) [Some ''01'', Some ''02'', Some ''03'']))
   \<and> valueArrayOf ''41'' = [''41'']
   \<and> parseOBDCommand examplePIDS ''41'' =
       \<lparr>reply_value = None, reply_name = Some ''requestdtc'',
        reply_mode = Some ''41'', reply_pid = None\<rparr>"
  by (simp add: valueArrayOf_def stripSpaces_def parseOBDCommand_def statusTokens_def at_def
        examplePIDS_def emptyReply_def)

lemma hex41: "hexToken ''41''" "hexToken ''43''"
  by (simp_all add: hexToken_def hexDigit_def)

text \<open>
  Claim C6, as amended. The function does not look at whether a token is hexadecimal and
  has no way to fail: a frame that is no status token and whose first token is not two
  hexadecimal digits is decoded to the empty reply, and the data handler emits one
  \<^verbatim>\<open>dataReceived\<close> with the decoded reply for every frame it cuts from the stream,
  whatever the frame holds; nothing is aborted and no error is emitted.
\<close>

theorem malformed_frame_is_decoded:
  assumes "frame \<notin> set statusTokens"
    and "at (valueArrayOf frame) 0 = Some t" and "\<not> hexToken t"
  shows "parseOBDCommand PIDS frame = emptyReply
    \<and> snd (dataHandler PIDS self data) =
        map (parseOBDCommand PIDS) (framesOf (receivedData self @ data))"
proof -
  from assms(2,3) have "at (valueArrayOf frame) 0 \<noteq> Some ''41''"
    and "at (valueArrayOf frame) 0 \<noteq> Some ''43''"
    using hex41 by auto
  with assms(1) have "parseOBDCommand PIDS frame = emptyReply"
    by (simp add: parseOBDCommand_def Let_def)
  then show ?thesis using dataHandler_events [of PIDS self data] by simp
qed

theorem malformed_frame_is_decoded_witness:
  "''ZZ'' \<notin> set statusTokens \<and> at (valueArrayOf ''ZZ'') 0 = Some ''ZZ'' \<and> \<not> hexToken ''ZZ''
   \<and> parseOBDCommand examplePIDS ''ZZ'' = emptyReply
   \<and> snd (dataHandler examplePIDS exampleReader ''ZZ>'') = [emptyReply]"
proof -
  have h1: "''ZZ'' \<notin> set statusTokens" by (simp add: statusTokens_def)
  have h2: "at (valueArrayOf ''ZZ'') 0 = Some ''ZZ''"
    by (simp add: valueArrayOf_def stripSpaces_def at_def)
  have h3: "\<not> hexToken ''ZZ''" by (simp add: hexToken_def hexDigit_def)
  have fr: "framesOf (receivedData exampleReader @ ''ZZ>'') = [''ZZ'']"
    by (simp add: framesOf_def messagesOf_def exampleReader_def prompt_def CR_def)
  from malformed_frame_is_decoded [OF h1 h2 h3, of examplePIDS exampleReader "''ZZ>''"]
  show ?thesis using h1 h2 h3 by (simp add: fr)
qed

text \<open>
  Claim C6 as stated fails on the frame \<^verbatim>\<open>410CZZZZ\<close>: its tokens \<^verbatim>\<open>ZZ\<close> are not
  hexadecimal, and yet it is decoded in full, the conversion receiving them as they are, and
  the handler emits the reply.
\<close>

theorem malformed_frame_counterexample:
  "\<not> hexToken ''ZZ''
   \<and> valueArrayOf ''410CZZZZ'' = [''41'', ''0C'', ''ZZ'', ''ZZ'']
   \<and> parseOBDCommand examplePIDS ''410CZZZZ'' =
       \<lparr>reply_value = Some (Converted [Some ''ZZ'', Some ''ZZ'']), reply_name = Some ''rpm'',
        reply_mode = Some ''41'', reply_pid = Some ''0C''\<rparr>
   \<and> dataHandler examplePIDS exampleReader ''410CZZZZ>'' =
       (exampleReader,
        [\<lparr>reply_value = Some (Converted [Some ''ZZ'', Some ''ZZ'']), reply_name = Some ''rpm'',
          reply_mode = Some ''41'', reply_pid = Some ''0C''\<rparr>])"
  by (simp add: hexToken_def hexDigit_def valueArrayOf_def stripSpaces_def parseOBDCommand_def
        statusTokens_def at_def examplePIDS_def emptyReply_def dataHandler_def exampleReader_def
        prompt_def CR_def)

text \<open>
  Claim C7, as amended. When the first token of a frame is \<^verbatim>\<open>41\<close> and the first table
  entry with the frame's pid has a width other than 1, 2, 4 and 8, the reply carries the
  mode, the pid and the entry's name, and no value; no error is raised.
\<close>

theorem unsupported_width_gives_no_value:
  assumes "at (valueArrayOf frame) 0 = Some ''41''"
    and "find (\<lambda>e. pid e = at (valueArrayOf frame) 1) PIDS = Some e"
    and "\<not> supportedWidth (bytes e)"
  shows "parseOBDCommand PIDS frame =
     \<lparr>reply_value = None, reply_name = Some (name e),
      reply_mode = Some ''41'', reply_pid = at (valueArrayOf frame) 1\<rparr>"
  using assms(2,3) by (simp add: parse_mode41 [OF assms(1)] pidLoop41_unsupported emptyReply_def)

lemma va3: "valueArrayOf ''417F010203'' = [''41'', ''7F'', ''01'', ''02'', ''03'']"
  by (simp add: valueArrayOf_def stripSpaces_def)

theorem unsupported_width_gives_no_value_witness:
  "at (valueArrayOf ''417F010203'') 0 = Some ''41''
   \<and> find (\<lambda>e. pid e = at (valueArrayOf ''417F010203'') 1) examplePIDS = Some (examplePIDS ! 2)
   \<and> \<not> supportedWidth (bytes (examplePIDS ! 2))
   \<and> parseOBDCommand examplePIDS ''417F010203'' =
       \<lparr>reply_value = None, reply_name = Some ''wide'',
        reply_mode = Some ''41'', reply_pid = Some ''7F''\<rparr>"
proof -
  have h1: "at (valueArrayOf ''417F010203'') 0 = Some ''41''" by (simp add: va3 at_def)
  have h2: "find (\<lambda>e. pid e = at (valueArrayOf ''417F010203'') 1) examplePIDS = Some (examplePIDS ! 2)"
    by (simp add: va3 at_def examplePIDS_def)
  have h3: "\<not> supportedWidth (bytes (examplePIDS ! 2))"
    by (simp add: examplePIDS_def supportedWidth_def)
  from unsupported_width_gives_no_value [OF h1 h2 h3]
  show ?thesis using h1 h2 h3 by (simp add: va3 at_def examplePIDS_def)
qed

text \<open>
  Claim C7 as stated fails for an entry of width three: the frame is decoded to a reply
  with a name and without a value.
\<close>

theorem unsupported_width_counterexample:
  "bytes (examplePIDS ! 2) = 3 \<and> pid (examplePIDS ! 2) = Some ''7F''
   \<and> parseOBDCommand examplePIDS ''417F010203'' =
       \<lparr>reply_value = None, reply_name = Some ''wide'',
        reply_mode = Some ''41'', reply_pid = Some ''7F''\<rparr>"
  by (simp add: va3 parseOBDCommand_def statusTokens_def at_def examplePIDS_def emptyReply_def)

section \<open>Pollers\<close>

lemma getPIDByName_find:
  "getPIDByName PIDS n =
     (case find (\<lambda>e. name e = n) PIDS of
        None \<Rightarrow> None
      | Some e \<Rightarrow> Some (mode e @ (case pid e of None \<Rightarrow> [] | Some p \<Rightarrow> p)))"
  by (induction PIDS) (auto split: option.splits)

lemma indexOf_absent: "v \<notin> set xs \<Longrightarrow> indexOf xs v = - 1"
  by (induction xs) (auto simp: Let_def)

lemma indexOf_range: "v \<in> set xs \<Longrightarrow> 0 \<le> indexOf xs v \<and> indexOf xs v < int (length xs)"
  by (induction xs) (auto simp: Let_def)

lemma splice1_indexOf: "v \<in> set xs \<Longrightarrow> splice1 (indexOf xs v) xs = remove1 v xs"
proof (induction xs)
  case Nil
  then show ?case by simp
next
  case (Cons x xs)
  show ?case
  proof (cases "x = v")
    case True
    then show ?thesis by (simp add: splice1_def)
  next
    case False
    with Cons.prems have mem: "v \<in> set xs" by simp
    from indexOf_range [OF mem] have r: "0 \<le> indexOf xs v" "indexOf xs v < int (length xs)"
      by simp_all
    have "splice1 (indexOf xs v + 1) (x # xs) = x # splice1 (indexOf xs v) xs"
      using r by (simp add: splice1_def Let_def nat_add_distrib min_def)
    with False r Cons.IH [OF mem] show ?thesis by (simp add: Let_def)
  qed
qed

text \<open>
  Claim C8, as amended. For a name the table has, \<^verbatim>\<open>addPoller\<close> appends the command
  text of the first entry of that name, its mode followed by its pid if it has one, and
  \<^verbatim>\<open>removePoller\<close> removes the first occurrence of that text when the set holds it.
  For a name the table does not have, nothing fails: \<^verbatim>\<open>addPoller\<close> appends an entry
  that is \<^verbatim>\<open>undefined\<close>.
\<close>

theorem pollers_by_name:
  "(find (\<lambda>e. name e = n) PIDS = None \<longrightarrow>
      addPoller PIDS self n = self\<lparr>activePollers := activePollers self @ [None]\<rparr>)
   \<and> (\<forall>e. find (\<lambda>e. name e = n) PIDS = Some e \<longrightarrow>
      addPoller PIDS self n =
        self\<lparr>activePollers := activePollers self @
               [Some (mode e @ (case pid e of None \<Rightarrow> [] | Some p \<Rightarrow> p))]\<rparr>
      \<and> (Some (mode e @ (case pid e of None \<Rightarrow> [] | Some p \<Rightarrow> p)) \<in> set (activePollers self) \<longrightarrow>
         removePoller PIDS self n =
           self\<lparr>activePollers :=
                 remove1 (Some (mode e @ (case pid e of None \<Rightarrow> [] | Some p \<Rightarrow> p)))
                   (activePollers self)\<rparr>))"
  by (auto simp: addPoller_def removePoller_def getPIDByName_find splice1_indexOf)

theorem pollers_by_name_witness:
  "find (\<lambda>e. name e = ''nosuch'') examplePIDS = None
   \<and> addPoller examplePIDS exampleReader ''nosuch'' = exampleReader\<lparr>activePollers := [None]\<rparr>
   \<and> find (\<lambda>e. name e = ''rpm'') examplePIDS = Some (hd examplePIDS)
   \<and> addPoller examplePIDS exampleReader ''rpm'' = exampleReader\<lparr>activePollers := [Some ''010C'']\<rparr>
   \<and> Some ''010C'' \<in> set (activePollers (exampleReader\<lparr>activePollers := [Some ''010C'', Some ''010D'']\<rparr>))
   \<and> removePoller examplePIDS (exampleReader\<lparr>activePollers := [Some ''010C'', Some ''010D'']\<rparr>) ''rpm'' =
       exampleReader\<lparr>activePollers := [Some ''010D'']\<rparr>"
proof -
  have f1: "find (\<lambda>e. name e = ''nosuch'') examplePIDS = None" by (simp add: examplePIDS_def)
  have f2: "find (\<lambda>e. name e = ''rpm'') examplePIDS = Some (hd examplePIDS)"
    by (simp add: examplePIDS_def)
  have e: "mode (hd examplePIDS) @ (case pid (hd examplePIDS) of None \<Rightarrow> [] | Some p \<Rightarrow> p) = ''010C''"
    by (simp add: examplePIDS_def)
  have a: "addPoller examplePIDS exampleReader ''nosuch'' = exampleReader\<lparr>activePollers := [None]\<rparr>"
    using pollers_by_name [of "''nosuch''" examplePIDS exampleReader] f1
    by (simp add: exampleReader_def)
  have b: "addPoller examplePIDS exampleReader ''rpm'' = exampleReader\<lparr>activePollers := [Some ''010C'']\<rparr>"
    using pollers_by_name [of "''rpm''" examplePIDS exampleReader] f2 e
    by (simp add: exampleReader_def)
  have c: "removePoller examplePIDS (exampleReader\<lparr>activePollers := [Some ''010C'', Some ''010D'']\<rparr>) ''rpm'' =
       exampleReader\<lparr>activePollers := [Some ''010D'']\<rparr>"
    using pollers_by_name [of "''rpm''" examplePIDS
        "exampleReader\<lparr>activePollers := [Some ''010C'', Some ''010D'']\<rparr>"] f2 e
    by simp
  from f1 f2 a b c show ?thesis by simp
qed

text \<open>
  Claim C8 as stated fails for a name the table does not have: \<^verbatim>\<open>addPoller\<close> makes
  the empty set a set of one entry, and \<^verbatim>\<open>removePoller\<close> takes an entry away from a
  set of two.
\<close>

theorem pollers_by_name_counterexample:
  "getPIDByName examplePIDS ''nosuch'' = None
   \<and> activePollers exampleReader = []
   \<and> activePollers (addPoller examplePIDS exampleReader ''nosuch'') = [None]
   \<and> activePollers (removePoller examplePIDS
        (exampleReader\<lparr>activePollers := [Some ''010C'', Some ''010D'']\<rparr>) ''nosuch'') =
       [Some ''010C'']"
  by (simp add: examplePIDS_def exampleReader_def addPoller_def removePoller_def splice1_def)









section \<open>One queue for all readers\<close>





end
